theory Spec2Isabelle
  imports Complex_Main
begin

section \<open>JavaScript numbers\<close>

text \<open>
  The calculator and the elevation service compute with JavaScript numbers. A number is
  modelled as an exact real, or one of the three special values \<open>NaN\<close>, \<open>+Infinity\<close>
  and \<open>-Infinity\<close>, with the rules of the language for the special values: a division
  by zero gives an infinity or \<open>NaN\<close>, \<open>NaN\<close> propagates through arithmetic, and
  every comparison with \<open>NaN\<close> is false. Rounding of finite results to 64-bit floats
  and the sign of zero are not modelled: finite arithmetic is exact, and zero is the
  positive zero. A finite result leaves the range of doubles only for operands far
  outside the data of the application, with one exception that is modelled: the power
  \<open>10^x\<close> of \<open>calculateMaxRange\<close>, whose exponent grows with the power budget
  (\<open>to_double\<close> and \<open>Math_pow_double\<close> below).
\<close>

datatype number = NaN | PInf | NInf | Num real

fun neg :: "number \<Rightarrow> number" where
  "neg NaN = NaN"
| "neg PInf = NInf"
| "neg NInf = PInf"
| "neg (Num a) = Num (- a)"

fun add :: "number \<Rightarrow> number \<Rightarrow> number" where
  "add (Num a) (Num b) = Num (a + b)"
| "add NaN _ = NaN"
| "add _ NaN = NaN"
| "add PInf NInf = NaN"
| "add NInf PInf = NaN"
| "add PInf _ = PInf"
| "add _ PInf = PInf"
| "add NInf _ = NInf"
| "add _ NInf = NInf"

definition sub :: "number \<Rightarrow> number \<Rightarrow> number" where
  "sub a b = add a (neg b)"

text \<open>The infinity with the sign of a real; zero counts as positive.\<close>

definition inf_of_sign :: "real \<Rightarrow> number" where
  "inf_of_sign s = (if s < 0 then NInf else PInf)"

fun mul :: "number \<Rightarrow> number \<Rightarrow> number" where
  "mul (Num a) (Num b) = Num (a * b)"
| "mul NaN _ = NaN"
| "mul _ NaN = NaN"
| "mul (Num a) PInf = (if a = 0 then NaN else inf_of_sign a)"
| "mul (Num a) NInf = (if a = 0 then NaN else inf_of_sign (- a))"
| "mul PInf (Num b) = (if b = 0 then NaN else inf_of_sign b)"
| "mul NInf (Num b) = (if b = 0 then NaN else inf_of_sign (- b))"
| "mul PInf PInf = PInf"
| "mul PInf NInf = NInf"
| "mul NInf PInf = NInf"
| "mul NInf NInf = PInf"

fun divide_n :: "number \<Rightarrow> number \<Rightarrow> number" where
  "divide_n (Num a) (Num b) =
     (if b \<noteq> 0 then Num (a / b) else if a = 0 then NaN else inf_of_sign a)"
| "divide_n NaN _ = NaN"
| "divide_n _ NaN = NaN"
| "divide_n (Num a) PInf = Num 0"
| "divide_n (Num a) NInf = Num 0"
| "divide_n PInf (Num b) = inf_of_sign b"
| "divide_n NInf (Num b) = (if b < 0 then PInf else NInf)"
| "divide_n PInf PInf = NaN"
| "divide_n PInf NInf = NaN"
| "divide_n NInf PInf = NaN"
| "divide_n NInf NInf = NaN"

text \<open>The comparisons \<open><\<close> and \<open><=\<close>; \<open>>\<close> and \<open>>=\<close> swap the arguments.\<close>

fun lt :: "number \<Rightarrow> number \<Rightarrow> bool" where
  "lt (Num a) (Num b) = (a < b)"
| "lt NaN _ = False"
| "lt _ NaN = False"
| "lt _ NInf = False"
| "lt PInf _ = False"
| "lt NInf _ = True"
| "lt _ PInf = True"

fun le :: "number \<Rightarrow> number \<Rightarrow> bool" where
  "le (Num a) (Num b) = (a \<le> b)"
| "le NaN _ = False"
| "le _ NaN = False"
| "le NInf _ = True"
| "le _ PInf = True"
| "le _ NInf = False"
| "le PInf _ = False"

definition gt :: "number \<Rightarrow> number \<Rightarrow> bool" where
  "gt a b = lt b a"

definition ge :: "number \<Rightarrow> number \<Rightarrow> bool" where
  "ge a b = le b a"

text \<open>Strict equality \<open>===\<close> of two numbers: \<open>NaN\<close> equals nothing.\<close>

definition strict_eq :: "number \<Rightarrow> number \<Rightarrow> bool" where
  "strict_eq a b = (a \<noteq> NaN \<and> a = b)"

subsection \<open>The functions of \<open>Math\<close> that the code calls\<close>

definition Math_min :: "number \<Rightarrow> number \<Rightarrow> number" where
  "Math_min a b = (if a = NaN \<or> b = NaN then NaN else if lt b a then b else a)"

definition Math_max :: "number \<Rightarrow> number \<Rightarrow> number" where
  "Math_max a b = (if a = NaN \<or> b = NaN then NaN else if lt a b then b else a)"

fun Math_sqrt :: "number \<Rightarrow> number" where
  "Math_sqrt NaN = NaN"
| "Math_sqrt PInf = PInf"
| "Math_sqrt NInf = NaN"
| "Math_sqrt (Num a) = (if a < 0 then NaN else Num (sqrt a))"

fun Math_log10 :: "number \<Rightarrow> number" where
  "Math_log10 NaN = NaN"
| "Math_log10 PInf = PInf"
| "Math_log10 NInf = NaN"
| "Math_log10 (Num a) = (if a < 0 then NaN else if a = 0 then NInf else Num (log 10 a))"

fun Math_ceil :: "number \<Rightarrow> number" where
  "Math_ceil (Num a) = Num (of_int \<lceil>a\<rceil>)"
| "Math_ceil x = x"

text \<open>\<open>Math.round\<close> rounds to the nearest integer, a half towards \<open>+Infinity\<close>.\<close>

fun Math_round :: "number \<Rightarrow> number" where
  "Math_round (Num a) = Num (of_int \<lfloor>a + 1 / 2\<rfloor>)"
| "Math_round x = x"

fun Math_sin :: "number \<Rightarrow> number" where
  "Math_sin (Num a) = Num (sin a)"
| "Math_sin _ = NaN"

fun Math_cos :: "number \<Rightarrow> number" where
  "Math_cos (Num a) = Num (cos a)"
| "Math_cos _ = NaN"

definition is_odd_integer :: "real \<Rightarrow> bool" where
  "is_odd_integer e = (of_int \<lfloor>e\<rfloor> = e \<and> odd \<lfloor>e\<rfloor>)"

fun Math_pow :: "number \<Rightarrow> number \<Rightarrow> number" where
  "Math_pow _ NaN = NaN"
| "Math_pow b (Num e) =
     (if e = 0 then Num 1
      else case b of
        NaN \<Rightarrow> NaN
      | PInf \<Rightarrow> (if 0 < e then PInf else Num 0)
      | NInf \<Rightarrow> (if 0 < e then (if is_odd_integer e then NInf else PInf) else Num 0)
      | Num x \<Rightarrow>
          (if 0 < x then Num (x powr e)
           else if x = 0 then (if 0 < e then Num 0 else PInf)
           else if of_int \<lfloor>e\<rfloor> = e then Num (power_int x \<lfloor>e\<rfloor>)
           else NaN))"
| "Math_pow b PInf =
     (case b of
        NaN \<Rightarrow> NaN
      | PInf \<Rightarrow> PInf
      | NInf \<Rightarrow> PInf
      | Num x \<Rightarrow> (if 1 < \<bar>x\<bar> then PInf else if \<bar>x\<bar> = 1 then NaN else Num 0))"
| "Math_pow b NInf =
     (case b of
        NaN \<Rightarrow> NaN
      | PInf \<Rightarrow> Num 0
      | NInf \<Rightarrow> Num 0
      | Num x \<Rightarrow> (if 1 < \<bar>x\<bar> then Num 0 else if \<bar>x\<bar> = 1 then NaN else PInf))"

text \<open>
  A real result brought into the range of doubles, as rounding to nearest does: a
  magnitude of at least \<open>2^1024 - 2^970\<close> (the largest double plus half a unit in its
  last place) becomes an infinity, a magnitude of at most \<open>2^-1075\<close> (half the
  smallest double) becomes zero. \<open>Math_pow_double\<close> is \<open>Math.pow\<close> with its finite
  results in that range.
\<close>

definition to_double :: "real \<Rightarrow> number" where
  "to_double v =
     (if 2 ^ 1024 - 2 ^ 970 \<le> \<bar>v\<bar> then inf_of_sign v
      else if \<bar>v\<bar> \<le> 1 / 2 ^ 1075 then Num 0
      else Num v)"

definition Math_pow_double :: "number \<Rightarrow> number \<Rightarrow> number" where
  "Math_pow_double b e = (case Math_pow b e of Num v \<Rightarrow> to_double v | x \<Rightarrow> x)"

text \<open>\<open>Math.atan2(y, x)\<close>, the angle of the point \<open>(x, y)\<close>.\<close>

fun Math_atan2 :: "number \<Rightarrow> number \<Rightarrow> number" where
  "Math_atan2 NaN _ = NaN"
| "Math_atan2 _ NaN = NaN"
| "Math_atan2 (Num y) (Num x) =
     (if 0 < x then Num (arctan (y / x))
      else if x < 0 then (if 0 \<le> y then Num (arctan (y / x) + pi) else Num (arctan (y / x) - pi))
      else if 0 < y then Num (pi / 2)
      else if y < 0 then Num (- pi / 2)
      else Num 0)"
| "Math_atan2 (Num y) PInf = Num 0"
| "Math_atan2 (Num y) NInf = (if 0 \<le> y then Num pi else Num (- pi))"
| "Math_atan2 PInf (Num x) = Num (pi / 2)"
| "Math_atan2 NInf (Num x) = Num (- pi / 2)"
| "Math_atan2 PInf PInf = Num (pi / 4)"
| "Math_atan2 PInf NInf = Num (3 * pi / 4)"
| "Math_atan2 NInf PInf = Num (- pi / 4)"
| "Math_atan2 NInf NInf = Num (- 3 * pi / 4)"

section \<open>Values and errors\<close>

text \<open>
  A property read can give \<open>undefined\<close>; \<open>undefined\<close> used in arithmetic is converted
  to \<open>NaN\<close>. Reading a property of \<open>undefined\<close> throws a \<open>TypeError\<close>, the only
  exception the calculator can raise.
\<close>

datatype jsval = Undefined | Number number

datatype error = TypeError

fun to_number :: "jsval \<Rightarrow> number" where
  "to_number Undefined = NaN"
| "to_number (Number x) = x"

section \<open>The LoRa calculator\<close>

subsection \<open>Sensitivity table\<close>

text \<open>
  The table is an object of objects. A number used as a property key is converted to its
  decimal string, so a number finds the key \<open>k\<close> exactly when it is the finite number
  \<open>k\<close>; \<open>NaN\<close> and the infinities find nothing.
\<close>

fun lookup_key :: "(real \<times> 'a) list \<Rightarrow> number \<Rightarrow> 'a option" where
  "lookup_key t (Num k) = map_of t k"
| "lookup_key t _ = None"

definition sensitivityTable :: "(real \<times> (real \<times> real) list) list" where
  "sensitivityTable =
     [(125, [(7, -123), (8, -126), (9, -129), (10, -132), (11, -134.5), (12, -137)]),
      (250, [(7, -120), (8, -123), (9, -125), (10, -128), (11, -131), (12, -133)]),
      (500, [(7, -117), (8, -120), (9, -122), (10, -125), (11, -128), (12, -130)])]"

definition getSensitivity :: "number \<Rightarrow> number \<Rightarrow> error + jsval" where
  "getSensitivity sf_arg bw_arg =
     (case lookup_key sensitivityTable bw_arg of
        None \<Rightarrow> Inl TypeError
      | Some row \<Rightarrow>
          (case lookup_key row sf_arg of
             None \<Rightarrow> Inr Undefined
           | Some v \<Rightarrow> Inr (Number (Num v))))"

definition bw_keys :: "number set" where
  "bw_keys = {Num 125, Num 250, Num 500}"

definition sf_keys :: "number set" where
  "sf_keys = {Num 7, Num 8, Num 9, Num 10, Num 11, Num 12}"

subsection \<open>Data rate and time on air\<close>

definition calculateDataRate :: "number \<Rightarrow> number \<Rightarrow> number \<Rightarrow> number" where
  "calculateDataRate sf_arg bw_arg cr_arg =
     (let bandwidth = mul bw_arg (Num 1000);
          codingRate = divide_n (Num 4) cr_arg;
          symbolRate = divide_n bandwidth (Math_pow (Num 2) sf_arg);
          dataRate = mul (mul symbolRate sf_arg) codingRate
      in Math_round dataRate)"

definition calculateTimeOnAir :: "number \<Rightarrow> number \<Rightarrow> number \<Rightarrow> number \<Rightarrow> number" where
  "calculateTimeOnAir payloadBytes sf_arg bw_arg cr_arg =
     (let bandwidth = mul bw_arg (Num 1000);
          symbolDuration = divide_n (Math_pow (Num 2) sf_arg) bandwidth;
          preambleDuration = mul (add (Num 8) (Num 4.25)) symbolDuration;
          payloadSymbolNb =
            add (Num 8)
              (Math_max
                 (mul (Math_ceil
                         (divide_n
                            (add (sub (mul (Num 8) payloadBytes) (mul (Num 4) sf_arg)) (Num 28))
                            (mul (Num 4) sf_arg)))
                      cr_arg)
                 (Num 0));
          payloadDuration = mul payloadSymbolNb symbolDuration
      in mul (add preambleDuration payloadDuration) (Num 1000))"

text \<open>
  The time on air in the words of the specification, for comparison with the code:
  preamble of \<open>8 + 4.25\<close> symbol periods, payload symbol count
  \<open>8 + max(ceil((8*payloadBytes - 4*sf + 28)/(4*sf)) * cr, 0)\<close>, symbol period
  \<open>2^sf / bw_Hz\<close>, total = (preamble + payload) symbols times the symbol period,
  in seconds.
\<close>

definition spec_symbolPeriod :: "number \<Rightarrow> number \<Rightarrow> number" where
  "spec_symbolPeriod sf_arg bw_arg = divide_n (Math_pow (Num 2) sf_arg) (mul bw_arg (Num 1000))"

definition spec_payloadSymbols :: "number \<Rightarrow> number \<Rightarrow> number \<Rightarrow> number" where
  "spec_payloadSymbols payloadBytes sf_arg cr_arg =
     add (Num 8)
       (Math_max
          (mul (Math_ceil
                  (divide_n
                     (add (sub (mul (Num 8) payloadBytes) (mul (Num 4) sf_arg)) (Num 28))
                     (mul (Num 4) sf_arg)))
               cr_arg)
          (Num 0))"

definition spec_timeOnAir_seconds :: "number \<Rightarrow> number \<Rightarrow> number \<Rightarrow> number \<Rightarrow> number" where
  "spec_timeOnAir_seconds payloadBytes sf_arg bw_arg cr_arg =
     mul (add (add (Num 8) (Num 4.25)) (spec_payloadSymbols payloadBytes sf_arg cr_arg))
         (spec_symbolPeriod sf_arg bw_arg)"

subsection \<open>Path loss and Fresnel radius\<close>

definition calculateFSPL :: "number \<Rightarrow> number \<Rightarrow> number" where
  "calculateFSPL distanceKm frequencyMHz =
     (if le distanceKm (Num 0) then Num 0
      else add (add (mul (Num 20) (Math_log10 distanceKm))
                    (mul (Num 20) (Math_log10 frequencyMHz)))
               (Num 32.45))"

definition calculateFresnelRadius :: "number \<Rightarrow> number \<Rightarrow> number \<Rightarrow> number" where
  "calculateFresnelRadius d1 d2 frequencyMHz =
     (let totalDistance = add d1 d2
      in if strict_eq totalDistance (Num 0) then Num 0
         else mul (Num 17.3)
                (Math_sqrt (divide_n (mul d1 d2) (mul frequencyMHz totalDistance))))"

definition calculateMaxFresnelRadius :: "number \<Rightarrow> number \<Rightarrow> number" where
  "calculateMaxFresnelRadius distanceKm frequencyMHz =
     (let d1 = divide_n distanceKm (Num 2);
          d2 = divide_n distanceKm (Num 2)
      in calculateFresnelRadius d1 d2 frequencyMHz)"

subsection \<open>Link budget and maximum range\<close>

text \<open>
  The parameter object. Both functions destructure it with \<open>fadeMargin = 10\<close>: an
  absent (\<open>undefined\<close>) fade margin, \<open>None\<close> here, is replaced by 10.
  \<open>calculateMaxRange\<close> does not read \<open>distance\<close> and \<open>cr\<close>.
\<close>

record params =
  txPower :: number
  txGain :: number
  rxGain :: number
  frequency :: number
  distance :: number
  sf :: number
  bw :: number
  cr :: number
  fadeMargin :: "number option"

definition fadeMargin_or_default :: "params \<Rightarrow> number" where
  "fadeMargin_or_default p = (case fadeMargin p of None \<Rightarrow> Num 10 | Some m \<Rightarrow> m)"

record details =
  d_txPower :: number
  d_txGain :: number
  d_rxGain :: number
  d_miscLosses :: number
  d_fadeMargin :: number
  d_requiredMargin :: number

record link_budget =
  sensitivity :: jsval
  pathLoss :: number
  rxPower :: number
  linkMargin :: number
  linkBudget :: number
  dataRate :: number
  fresnelRadius :: number
  status :: string
  details :: details

definition link_status :: "number \<Rightarrow> number \<Rightarrow> string" where
  "link_status margin requiredMargin =
     (if lt margin requiredMargin then ''poor''
      else if lt margin (add requiredMargin (Num 10)) then ''marginal''
      else if lt margin (add requiredMargin (Num 20)) then ''good''
      else ''excellent'')"

definition calculateLinkBudget :: "params \<Rightarrow> error + link_budget" where
  "calculateLinkBudget p =
     (let fm = fadeMargin_or_default p in
      case getSensitivity (sf p) (bw p) of
        Inl e \<Rightarrow> Inl e
      | Inr sens \<Rightarrow>
          (let pathLoss_v = calculateFSPL (distance p) (frequency p);
               miscLosses = Num 2;
               rxPower_v =
                 sub (sub (add (add (txPower p) (txGain p)) (rxGain p)) pathLoss_v) miscLosses;
               linkMargin_v = sub rxPower_v (to_number sens);
               requiredMargin = fm;
               linkBudget_v = sub linkMargin_v fm;
               dataRate_v = calculateDataRate (sf p) (bw p) (cr p);
               fresnelRadius_v = calculateMaxFresnelRadius (distance p) (frequency p)
           in Inr \<lparr>sensitivity = sens,
                    pathLoss = pathLoss_v,
                    rxPower = rxPower_v,
                    linkMargin = linkMargin_v,
                    linkBudget = linkBudget_v,
                    dataRate = dataRate_v,
                    fresnelRadius = fresnelRadius_v,
                    status = link_status linkMargin_v requiredMargin,
                    details = \<lparr>d_txPower = txPower p,
                                d_txGain = txGain p,
                                d_rxGain = rxGain p,
                                d_miscLosses = miscLosses,
                                d_fadeMargin = fm,
                                d_requiredMargin = requiredMargin\<rparr>\<rparr>))"


text \<open>
  The parameters the application starts with (\<open>loraParams\<close>: 868 MHz, 125 kHz, SF7,
  coding rate 4/5, 14 dBm, gains of 2 dBi, no fade margin given), with a transmit power
  and a distance to choose.
\<close>

definition app_params :: "real \<Rightarrow> real \<Rightarrow> params" where
  "app_params tx d =
     \<lparr>txPower = Num tx, txGain = Num 2, rxGain = Num 2, frequency = Num 868,
      distance = Num d, sf = Num 7, bw = Num 125, cr = Num 5, fadeMargin = None\<rparr>"


section \<open>The elevation service\<close>

definition earthRadius :: number where
  "earthRadius = Num 6371"

definition toRadians :: "number \<Rightarrow> number" where
  "toRadians degrees = divide_n (mul degrees (Num pi)) (Num 180)"

definition calculateDistance :: "number \<Rightarrow> number \<Rightarrow> number \<Rightarrow> number \<Rightarrow> number" where
  "calculateDistance lat1 lon1 lat2 lon2 =
     (let dLat = toRadians (sub lat2 lat1);
          dLon = toRadians (sub lon2 lon1);
          a = add (mul (Math_sin (divide_n dLat (Num 2))) (Math_sin (divide_n dLat (Num 2))))
                  (mul (mul (mul (Math_cos (toRadians lat1)) (Math_cos (toRadians lat2)))
                            (Math_sin (divide_n dLon (Num 2))))
                       (Math_sin (divide_n dLon (Num 2))));
          c = mul (Num 2) (Math_atan2 (Math_sqrt a) (Math_sqrt (sub (Num 1) a)))
      in mul earthRadius c)"

definition calculateEarthBulge :: "number \<Rightarrow> number \<Rightarrow> number" where
  "calculateEarthBulge d1 d2 =
     (let bulge = divide_n (mul d1 d2) (mul (Num 2) earthRadius)
      in mul bulge (Num 1000))"

subsection \<open>Line of sight\<close>

record sample =
  p_lat :: number
  p_lon :: number
  p_elevation :: number
  p_distance :: number

record elevation_profile =
  profile :: "sample list"
  totalDistance :: number

text \<open>A building; its \<open>geometry\<close> is not read by the analysis and is left out.\<close>

record building =
  b_lat :: number
  b_lon :: number
  b_height :: number

record obstruction =
  o_distance :: number
  o_elevation :: number
  o_requiredHeight :: number
  o_obstruction :: number
  o_lat :: number
  o_lon :: number
  o_type :: string

text \<open>
  The result object. The early return for a short profile has neither \<open>quality\<close> nor
  \<open>totalDistance\<close>: the two fields are optional, \<open>None\<close> for an absent one.
\<close>

record los_result =
  hasLoS :: bool
  obstructions :: "obstruction list"
  fresnelClearance :: number
  quality :: "string option"
  r_totalDistance :: "number option"

text \<open>
  The values that the loop body computes for one sample \<open>point\<close>, named as its local
  variables. \<open>startElevation\<close> and \<open>endElevation\<close> are the antenna tops at both ends.
\<close>

definition adjustedLineHeight :: "number \<Rightarrow> number \<Rightarrow> number \<Rightarrow> sample \<Rightarrow> number" where
  "adjustedLineHeight totalDist startElevation endElevation point =
     (let d1 = p_distance point;
          d2 = sub totalDist d1;
          lineHeight =
            add startElevation (mul (sub endElevation startElevation) (divide_n d1 totalDist));
          earthBulge = calculateEarthBulge d1 d2
      in sub lineHeight earthBulge)"

definition localFresnelRadius :: "number \<Rightarrow> number \<Rightarrow> sample \<Rightarrow> number" where
  "localFresnelRadius totalDist freq point =
     (let d1 = p_distance point;
          d2 = sub totalDist d1
      in calculateFresnelRadius d1 d2 freq)"

definition requiredHeight :: "number \<Rightarrow> number \<Rightarrow> number \<Rightarrow> number \<Rightarrow> sample \<Rightarrow> number" where
  "requiredHeight totalDist startElevation endElevation freq point =
     add (adjustedLineHeight totalDist startElevation endElevation point)
         (mul (localFresnelRadius totalDist freq point) (Num 0.6))"

text \<open>The \<open>forEach\<close> over the buildings, raising the terrain height of the sample.\<close>

definition building_step :: "sample \<Rightarrow> number \<Rightarrow> building \<Rightarrow> number" where
  "building_step point h b =
     (let buildingDist = calculateDistance (p_lat point) (p_lon point) (b_lat b) (b_lon b)
      in if lt buildingDist (Num 0.05)
         then Math_max h (add (p_elevation point) (b_height b))
         else h)"

definition obstructionHeight :: "building list \<Rightarrow> sample \<Rightarrow> number" where
  "obstructionHeight buildings point = foldl (building_step point) (p_elevation point) buildings"

definition fresnelClearancePercent ::
  "number \<Rightarrow> number \<Rightarrow> number \<Rightarrow> number \<Rightarrow> building list \<Rightarrow> sample \<Rightarrow> number" where
  "fresnelClearancePercent totalDist startElevation endElevation freq buildings point =
     (let clearance = sub (adjustedLineHeight totalDist startElevation endElevation point)
                          (obstructionHeight buildings point)
      in mul (divide_n clearance (localFresnelRadius totalDist freq point)) (Num 100))"

definition obstructed ::
  "number \<Rightarrow> number \<Rightarrow> number \<Rightarrow> number \<Rightarrow> building list \<Rightarrow> sample \<Rightarrow> bool" where
  "obstructed totalDist startElevation endElevation freq buildings point =
     gt (obstructionHeight buildings point)
        (requiredHeight totalDist startElevation endElevation freq point)"

definition make_obstruction ::
  "number \<Rightarrow> number \<Rightarrow> number \<Rightarrow> number \<Rightarrow> building list \<Rightarrow> sample \<Rightarrow> obstruction" where
  "make_obstruction totalDist startElevation endElevation freq buildings point =
     (let oh = obstructionHeight buildings point;
          rh = requiredHeight totalDist startElevation endElevation freq point
      in \<lparr>o_distance = p_distance point,
          o_elevation = oh,
          o_requiredHeight = rh,
          o_obstruction = sub oh rh,
          o_lat = p_lat point,
          o_lon = p_lon point,
          o_type = (if gt oh (add (p_elevation point) (Num 5)) then ''building'' else ''terrain'')\<rparr>)"

text \<open>
  One pass of the loop body on the state \<open>(obstructions, minClearance)\<close>, and the loop
  \<open>for (let i = 1; i < profile.length - 1; i++)\<close> from the index \<open>i\<close> on.
\<close>

definition scan_step ::
  "number \<Rightarrow> number \<Rightarrow> number \<Rightarrow> number \<Rightarrow> building list \<Rightarrow> sample
     \<Rightarrow> obstruction list \<times> number \<Rightarrow> obstruction list \<times> number" where
  "scan_step totalDist startElevation endElevation freq buildings point st =
     (let minClearance =
            Math_min (snd st)
              (fresnelClearancePercent totalDist startElevation endElevation freq buildings point)
      in (if obstructed totalDist startElevation endElevation freq buildings point
          then fst st @ [make_obstruction totalDist startElevation endElevation freq buildings point]
          else fst st,
          minClearance))"

function scan_loop ::
  "sample list \<Rightarrow> number \<Rightarrow> number \<Rightarrow> number \<Rightarrow> number \<Rightarrow> building list \<Rightarrow> nat
     \<Rightarrow> obstruction list \<times> number \<Rightarrow> obstruction list \<times> number" where
  "scan_loop ps totalDist startElevation endElevation freq buildings i st =
     (if i < length ps - 1
      then scan_loop ps totalDist startElevation endElevation freq buildings (i + 1)
             (scan_step totalDist startElevation endElevation freq buildings (ps ! i) st)
      else st)"
  by pat_completeness auto
termination
  by (relation "measure (\<lambda>(ps, totalDist, startElevation, endElevation, freq, buildings, i, st).
        length ps - 1 - i)") auto

declare scan_loop.simps [simp del]

definition los_quality :: "bool \<Rightarrow> number \<Rightarrow> string" where
  "los_quality los clearance =
     (if \<not> los then ''blocked''
      else if lt clearance (Num 20) then ''poor''
      else if lt clearance (Num 60) then ''marginal''
      else if lt clearance (Num 100) then ''good''
      else ''excellent'')"

text \<open>
  \<open>analyzeLineOfSight\<close>; its parameter \<open>fresnelRadius\<close> is never read. A caller that
  passes no buildings gets the default \<open>[]\<close>.
\<close>

definition analyzeLineOfSight ::
  "elevation_profile \<Rightarrow> number \<Rightarrow> number \<Rightarrow> number \<Rightarrow> number \<Rightarrow> building list \<Rightarrow> los_result" where
  "analyzeLineOfSight elevationProfile point1Height point2Height fresnelRadius_arg freq buildings =
     (let ps = profile elevationProfile;
          totalDist = totalDistance elevationProfile
      in if length ps < 2
         then \<lparr>hasLoS = False, obstructions = [], fresnelClearance = Num 0,
                quality = None, r_totalDistance = None\<rparr>
         else
           (let startElevation = add (p_elevation (ps ! 0)) point1Height;
                endElevation = add (p_elevation (ps ! (length ps - 1))) point2Height;
                st = scan_loop ps totalDist startElevation endElevation freq buildings 1 ([], PInf);
                los = (length (fst st) = 0);
                clearance = snd st
            in \<lparr>hasLoS = los, obstructions = fst st, fresnelClearance = clearance,
                quality = Some (los_quality los clearance),
                r_totalDistance = Some totalDist\<rparr>))"

text \<open>The interior samples of a profile: all but the first and the last.\<close>

definition interior :: "sample list \<Rightarrow> sample list" where
  "interior ps = take (length ps - 2) (drop 1 ps)"

text \<open>
  The obstruction scenario of the specification: three samples at 0, 1 and 2 km with the
  elevations 0, 500 and 0 m, to be analysed with antennas of 10 m at 868 MHz.
\<close>

definition example_profile :: elevation_profile where
  "example_profile =
     \<lparr>profile =
        [\<lparr>p_lat = Num 45, p_lon = Num 9, p_elevation = Num 0, p_distance = Num 0\<rparr>,
         \<lparr>p_lat = Num 45, p_lon = Num 9.01, p_elevation = Num 500, p_distance = Num 1\<rparr>,
         \<lparr>p_lat = Num 45, p_lon = Num 9.02, p_elevation = Num 0, p_distance = Num 2\<rparr>],
      totalDistance = Num 2\<rparr>"

section \<open>Tolerance\<close>


section \<open>Sensitivity lookup\<close>

lemma getSensitivity_bw_key:
  "bw_arg \<in> bw_keys \<Longrightarrow> \<exists>v. getSensitivity sf_arg bw_arg = Inr v"
  by (auto simp: getSensitivity_def sensitivityTable_def bw_keys_def split: option.splits)

lemma getSensitivity_in_table:
  "bw_arg \<in> bw_keys \<Longrightarrow> sf_arg \<in> sf_keys
     \<Longrightarrow> \<exists>v. getSensitivity sf_arg bw_arg = Inr (Number (Num v))"
  by (auto simp: getSensitivity_def sensitivityTable_def bw_keys_def sf_keys_def)

lemma getSensitivity_no_bw_key:
  "bw_arg \<notin> bw_keys \<Longrightarrow> getSensitivity sf_arg bw_arg = Inl TypeError"
  by (cases bw_arg) (auto simp: getSensitivity_def sensitivityTable_def bw_keys_def)

lemma getSensitivity_no_sf_key:
  "bw_arg \<in> bw_keys \<Longrightarrow> sf_arg \<notin> sf_keys \<Longrightarrow> getSensitivity sf_arg bw_arg = Inr Undefined"
  by (cases sf_arg)
     (auto simp: getSensitivity_def sensitivityTable_def bw_keys_def sf_keys_def)

text \<open>
  Claim C2, as stated: for every pair \<open>(sf, bw)\<close> where \<open>bw\<close> is not one of 125, 250, 500
  or \<open>sf\<close> is not in 7..12, the lookup fails with an error and never returns
  \<open>undefined\<close>. It does not hold: with the bandwidth 125 and the spreading factor 6 the
  row of the table is found, the row has no entry 6, and the lookup returns
  \<open>undefined\<close> without any error.
\<close>

theorem getSensitivity_sf6_counterexample:
  "Num 6 \<notin> sf_keys \<and> getSensitivity (Num 6) (Num 125) = Inr Undefined"
  by (simp add: getSensitivity_def sensitivityTable_def sf_keys_def)

text \<open>
  Claim C2, amended: when \<open>bw\<close> is not a key of the table, the lookup fails (with the
  \<open>TypeError\<close> of reading a property of \<open>undefined\<close>, whatever \<open>sf\<close> is); when \<open>bw\<close>
  is a key and \<open>sf\<close> is not one of 7..12, the lookup does not fail and returns
  \<open>undefined\<close>.
\<close>

theorem getSensitivity_outside_table:
  "(bw_arg \<notin> bw_keys \<longrightarrow> getSensitivity sf_arg bw_arg = Inl TypeError) \<and>
   (bw_arg \<in> bw_keys \<and> sf_arg \<notin> sf_keys \<longrightarrow> getSensitivity sf_arg bw_arg = Inr Undefined)"
  using getSensitivity_no_bw_key getSensitivity_no_sf_key by blast

theorem getSensitivity_outside_table_witness:
  "Num 100 \<notin> bw_keys \<and> getSensitivity (Num 7) (Num 100) = Inl TypeError \<and>
   Num 250 \<in> bw_keys \<and> Num 13 \<notin> sf_keys \<and> getSensitivity (Num 13) (Num 250) = Inr Undefined"
  using getSensitivity_outside_table [of "Num 100" "Num 7"]
        getSensitivity_outside_table [of "Num 250" "Num 13"]
  by (simp add: bw_keys_def sf_keys_def)

section \<open>Data rate\<close>

text \<open>
  Claim C3, as stated: \<open>calculateDataRate\<close> rounds \<open>sf * (bw_Hz / 2^sf) * (4/cr)\<close> to
  the nearest integer, and \<open>dataRate(7, 125, 5)\<close> is 5468. The instance does not hold:
  the formula gives 5468.75 there, which rounds to 5469.
\<close>

theorem calculateDataRate_5468_counterexample:
  "calculateDataRate (Num 7) (Num 125) (Num 5) \<noteq> Num 5468"
  by (simp add: calculateDataRate_def)

text \<open>
  Claim C3, amended: for finite \<open>sf\<close>, \<open>bw\<close> and a finite \<open>cr\<close> other than zero,
  \<open>calculateDataRate\<close> returns \<open>sf * (bw_Hz / 2^sf) * (4/cr)\<close> rounded to the nearest
  integer, a half rounded up; \<open>dataRate(7, 125, 5)\<close> is 5469.
\<close>

theorem calculateDataRate_rounds:
  "(c \<noteq> 0 \<longrightarrow>
      calculateDataRate (Num s) (Num b) (Num c)
        = Num (of_int \<lfloor>s * (b * 1000 / 2 powr s) * (4 / c) + 1 / 2\<rfloor>)) \<and>
   calculateDataRate (Num 7) (Num 125) (Num 5) = Num 5469"
proof -
  have "c \<noteq> 0 \<longrightarrow>
      calculateDataRate (Num s) (Num b) (Num c)
        = Num (of_int \<lfloor>s * (b * 1000 / 2 powr s) * (4 / c) + 1 / 2\<rfloor>)"
    by (simp add: calculateDataRate_def Let_def mult.commute)
  moreover have "calculateDataRate (Num 7) (Num 125) (Num 5) = Num 5469"
    by (simp add: calculateDataRate_def)
  ultimately show ?thesis by blast
qed

theorem calculateDataRate_rounds_witness:
  "(6::real) \<noteq> 0 \<and> calculateDataRate (Num 8) (Num 250) (Num 6) = Num 5208"
  using calculateDataRate_rounds [of 6 8 250] by simp

section \<open>Time on air\<close>

lemma payloadSymbolNb_shape:
  "add (Num 8) (Math_max x (Num 0)) = NaN \<or> add (Num 8) (Math_max x (Num 0)) = PInf
   \<or> (\<exists>v. 8 \<le> v \<and> add (Num 8) (Math_max x (Num 0)) = Num v)"
  by (cases x) (auto simp: Math_max_def)

lemma symbols_distrib:
  assumes "n = NaN \<or> n = PInf \<or> (\<exists>v. 8 \<le> v \<and> n = Num v)" and "0 < k"
  shows "add (mul (Num k) T) (mul n T) = mul (add (Num k) n) T"
  using assms by (cases T) (auto simp: inf_of_sign_def algebra_simps)

text \<open>
  Claim C8, as stated: for every \<open>payloadBytes\<close>, \<open>sf\<close>, \<open>bw\<close> and \<open>cr\<close> the function
  returns (preamble + payload symbols) times the symbol period, in seconds. It does not
  hold: for 10 bytes at SF7, 125 kHz and coding rate 4/5 the duration is 0.036096
  seconds, and the function returns 36.096.
\<close>

theorem calculateTimeOnAir_seconds_counterexample:
  "calculateTimeOnAir (Num 10) (Num 7) (Num 125) (Num 5) = Num 36.096 \<and>
   spec_timeOnAir_seconds (Num 10) (Num 7) (Num 125) (Num 5) = Num 0.036096 \<and>
   calculateTimeOnAir (Num 10) (Num 7) (Num 125) (Num 5)
     \<noteq> spec_timeOnAir_seconds (Num 10) (Num 7) (Num 125) (Num 5)"
  by (simp add: calculateTimeOnAir_def spec_timeOnAir_seconds_def spec_payloadSymbols_def
        spec_symbolPeriod_def sub_def Math_max_def)

text \<open>
  Claim C8, amended: for every \<open>payloadBytes\<close>, \<open>sf\<close>, \<open>bw\<close> and \<open>cr\<close> the function
  returns (preamble + payload symbols) times the symbol period, with the preamble, the
  payload symbol count and the symbol period of the claim, expressed in milliseconds:
  1000 times the duration in seconds.
\<close>

theorem calculateTimeOnAir_milliseconds:
  "calculateTimeOnAir payloadBytes sf_arg bw_arg cr_arg
     = mul (spec_timeOnAir_seconds payloadBytes sf_arg bw_arg cr_arg) (Num 1000)"
proof -
  have k: "add (Num 8) (Num 4.25) = Num 12.25" by simp
  show ?thesis
    unfolding calculateTimeOnAir_def spec_timeOnAir_seconds_def spec_payloadSymbols_def
      spec_symbolPeriod_def Let_def k
    using symbols_distrib [OF payloadSymbolNb_shape, of "12.25"] by simp
qed

section \<open>Fresnel radius\<close>

lemma calculateFresnelRadius_finite:
  assumes "0 \<le> d1" "0 \<le> d2" "0 < f"
  shows "calculateFresnelRadius (Num d1) (Num d2) (Num f)
           = Num (17.3 * sqrt (d1 * d2 / (f * (d1 + d2))))"
proof -
  have "0 \<le> d1 * d2 / (f * (d1 + d2))" using assms by simp
  then have "\<not> d1 * d2 / (f * (d1 + d2)) < 0" by simp
  then show ?thesis
    using assms by (auto simp: calculateFresnelRadius_def strict_eq_def Let_def)
qed

text \<open>
  Claim C7: for a total distance \<open>D \<ge> 0\<close>, a frequency \<open>f > 0\<close> and every split
  \<open>d1, d2 \<ge> 0\<close> with \<open>d1 + d2 = D\<close>, the Fresnel radius at the midpoint,
  \<open>calculateFresnelRadius(D/2, D/2, f)\<close>, is at least \<open>calculateFresnelRadius(d1, d2, f)\<close>,
  and the midpoint radius is what \<open>calculateMaxFresnelRadius(D, f)\<close> computes.
\<close>

theorem fresnel_radius_max_at_midpoint:
  assumes "0 \<le> d1" "0 \<le> d2" "d1 + d2 = D" "0 < f"
  shows "ge (calculateFresnelRadius (Num (D / 2)) (Num (D / 2)) (Num f))
            (calculateFresnelRadius (Num d1) (Num d2) (Num f))
         \<and> calculateMaxFresnelRadius (Num D) (Num f)
            = calculateFresnelRadius (Num (D / 2)) (Num (D / 2)) (Num f)"
proof -
  have "(D / 2) * (D / 2) - d1 * d2 = ((d1 - d2) / 2)\<^sup>2"
    unfolding assms(3) [symmetric] by (simp add: power2_eq_square algebra_simps)
  then have prod: "d1 * d2 \<le> (D / 2) * (D / 2)"
    by (smt (verit) zero_le_power2)
  have half: "0 \<le> D / 2" using assms by simp
  have den: "0 \<le> f * D" using assms by simp
  have "d1 * d2 / (f * D) \<le> (D / 2) * (D / 2) / (f * D)"
    using prod den by (rule divide_right_mono)
  then have "sqrt (d1 * d2 / (f * (d1 + d2)))
               \<le> sqrt ((D / 2) * (D / 2) / (f * (D / 2 + D / 2)))"
    using assms(3) by simp
  then have "ge (Num (17.3 * sqrt ((D / 2) * (D / 2) / (f * (D / 2 + D / 2)))))
                (Num (17.3 * sqrt (d1 * d2 / (f * (d1 + d2)))))"
    by (simp add: ge_def)
  then have "ge (calculateFresnelRadius (Num (D / 2)) (Num (D / 2)) (Num f))
                (calculateFresnelRadius (Num d1) (Num d2) (Num f))"
    using calculateFresnelRadius_finite [OF assms(1,2,4)]
          calculateFresnelRadius_finite [OF half half assms(4)]
    by simp
  moreover have "calculateMaxFresnelRadius (Num D) (Num f)
                   = calculateFresnelRadius (Num (D / 2)) (Num (D / 2)) (Num f)"
    by (simp add: calculateMaxFresnelRadius_def Let_def)
  ultimately show ?thesis by blast
qed

theorem fresnel_radius_max_at_midpoint_witness:
  "(0::real) \<le> 1 \<and> (0::real) \<le> 3 \<and> (1::real) + 3 = 4 \<and> (0::real) < 868 \<and>
   ge (calculateFresnelRadius (Num (4 / 2)) (Num (4 / 2)) (Num 868))
      (calculateFresnelRadius (Num 1) (Num 3) (Num 868)) \<and>
   calculateMaxFresnelRadius (Num 4) (Num 868)
     = calculateFresnelRadius (Num (4 / 2)) (Num (4 / 2)) (Num 868)"
proof -
  have h: "(0::real) \<le> 1" "(0::real) \<le> 3" "(1::real) + 3 = 4" "(0::real) < 868"
    by simp_all
  from fresnel_radius_max_at_midpoint [OF h] h show ?thesis by blast
qed

section \<open>Logarithms and the range of doubles\<close>

lemma powr_lt_of_power:
  fixes a :: real
  assumes "0 < a" "0 < b" "a ^ m < b ^ n" "0 < n"
  shows "a powr (real m / real n) < b"
proof -
  have "(a powr (real m / real n)) ^ n = a powr (real m / real n * real n)"
    using assms(1) by (simp add: powr_realpow [symmetric] powr_powr)
  also have "\<dots> = a ^ m" using assms(1,4) by (simp add: powr_realpow)
  finally have "(a powr (real m / real n)) ^ n < b ^ n" using assms(3) by simp
  then show ?thesis using assms(2) by (meson less_eq_real_def power_less_imp_less_base)
qed

lemma log10_868: "29 / 10 < log 10 868 \<and> log 10 868 < 3"
proof -
  have "(10::real) powr (real 29 / real 10) < 868"
    by (rule powr_lt_of_power) simp_all
  then have "29 / 10 < log 10 868" by (subst less_log_iff) simp_all
  moreover have "log 10 868 < 3" by (simp add: log_less_iff)
  ultimately show ?thesis by blast
qed

lemma log10_32: "3 / 2 < log 10 32 \<and> log 10 32 < 2"
proof -
  have "(10::real) powr (real 3 / real 2) < 32"
    by (rule powr_lt_of_power) simp_all
  then have "3 / 2 < log 10 32" by (subst less_log_iff) simp_all
  moreover have "log 10 32 < 2" by (simp add: log_less_iff)
  ultimately show ?thesis by blast
qed

lemma log10_100: "log 10 100 = 2"
proof -
  have "log 10 ((10::real) ^ 2) = 2" by (subst log_nat_power) simp_all
  then show ?thesis by simp
qed



lemma powr_gt_of_power:
  fixes a :: real
  assumes "0 < a" "0 < b" "b ^ n < a ^ m" "0 < n"
  shows "b < a powr (real m / real n)"
proof -
  have "(a powr (real m / real n)) ^ n = a powr (real m / real n * real n)"
    using assms(1) by (simp add: powr_realpow [symmetric] powr_powr)
  also have "\<dots> = a ^ m" using assms(1,4) by (simp add: powr_realpow)
  finally have "b ^ n < (a powr (real m / real n)) ^ n" using assms(3) by simp
  then show ?thesis by (meson less_eq_real_def power_less_imp_less_base powr_ge_zero)
qed

lemma log10_32_upper: "log 10 32 < 9 / 5"
proof -
  have "32 < (10::real) powr (real 9 / real 5)"
    by (rule powr_gt_of_power) simp_all
  then show ?thesis by (subst log_less_iff) simp_all
qed





text \<open>
  The powers of two of the data rate and the time on air stay in the range of doubles for
  every exponent from -1074 to 1023, far beyond the spreading factors 7 to 12: there the
  exact power is the double.
\<close>

lemma Math_pow_double_2:
  assumes "- 1074 \<le> s" "s \<le> 1023"
  shows "Math_pow_double (Num 2) (Num s) = Math_pow (Num 2) (Num s)"
proof -
  have lo: "(2::real) powr (- 1074) = 1 / 2 ^ 1074"
    by (simp add: powr_minus_divide)
  have hi: "(2::real) powr 1023 = 2 ^ 1023" by simp
  have "(2::real) powr (- 1074) \<le> 2 powr s"
    by (rule powr_mono) (use assms in simp_all)
  then have 1: "1 / 2 ^ 1074 \<le> (2::real) powr s" by (simp only: lo)
  have "(2::real) powr s \<le> 2 powr 1023"
    by (rule powr_mono) (use assms in simp_all)
  then have 2: "(2::real) powr s \<le> 2 ^ 1023" by (simp only: hi)
  have "(1::real) / 2 ^ 1075 < 1 / 2 ^ 1074" by simp
  then have a: "\<not> \<bar>(2::real) powr s\<bar> \<le> 1 / 2 ^ 1075" using 1 by simp
  have "(2::real) ^ 1023 < 2 ^ 1024 - 2 ^ 970" by simp
  then have b: "\<not> 2 ^ 1024 - 2 ^ 970 \<le> \<bar>(2::real) powr s\<bar>" using 2 by simp
  have "Math_pow (Num 2) (Num s) = Num (2 powr s)" by simp
  then show ?thesis using a b by (simp add: Math_pow_double_def to_double_def del: Math_pow.simps)
qed

section \<open>Link budget\<close>

lemma link_status_thresholds:
  "(lt m F \<longrightarrow> link_status m F = ''poor'') \<and>
   (le F m \<and> lt m (add F (Num 10)) \<longrightarrow> link_status m F = ''marginal'') \<and>
   (le (add F (Num 10)) m \<and> lt m (add F (Num 20)) \<longrightarrow> link_status m F = ''good'') \<and>
   (ge m (add F (Num 20)) \<longrightarrow> link_status m F = ''excellent'')"
  by (cases m; cases F) (auto simp: link_status_def ge_def)

lemma link_status_label:
  "link_status m F \<in> {''poor'', ''marginal'', ''good'', ''excellent''}"
  by (simp add: link_status_def)

lemma link_status_finite:
  "link_status (Num m) (Num F) =
     (if m < F then ''poor'' else if m < F + 10 then ''marginal''
      else if m < F + 20 then ''good'' else ''excellent'')"
  by (simp add: link_status_def)

lemma calculateFSPL_finite:
  "0 < f \<Longrightarrow> calculateFSPL (Num d) (Num f)
     = Num (if d \<le> 0 then 0 else 20 * log 10 d + 20 * log 10 f + 32.45)"
  by (simp add: calculateFSPL_def)

lemma app_params_sensitivity:
  "getSensitivity (sf (app_params tx d)) (bw (app_params tx d)) = Inr (Number (Num (- 123)))"
  by (simp add: app_params_def getSensitivity_def sensitivityTable_def)

text \<open>
  Claim C5: for parameters whose bandwidth is in the sensitivity table (so that the lookup
  does not throw) and every distance, \<open>calculateLinkBudget\<close> returns a result whose
  path loss, received power and link margin are computed from the parameters as the
  link budget prescribes, and whose \<open>status\<close> is one of the four labels, the first of
  the chain \<open>linkMargin < F\<close>, \<open>< F + 10\<close>, \<open>< F + 20\<close> that holds: \<open>poor\<close> when
  \<open>linkMargin < F\<close>, \<open>marginal\<close> when \<open>F \<le> linkMargin < F + 10\<close>, \<open>good\<close> when
  \<open>F + 10 \<le> linkMargin < F + 20\<close> and \<open>excellent\<close> when \<open>linkMargin \<ge> F + 20\<close>,
  where \<open>F\<close> is the fade margin (10 when absent). The comparisons are those of the
  language. For valid parameters with finite values and a frequency above zero the link
  margin is the real number \<open>tp + tg + rg - FSPL - 2 - s\<close>, and the four cases, read on
  that number, decide the status.
\<close>

theorem calculateLinkBudget_status:
  fixes p :: params and tp tg rg d f F :: real
  assumes "bw p \<in> bw_keys"
  shows "\<exists>r v. calculateLinkBudget p = Inr r \<and> getSensitivity (sf p) (bw p) = Inr v \<and>
    pathLoss r = calculateFSPL (distance p) (frequency p) \<and>
    rxPower r = sub (sub (add (add (txPower p) (txGain p)) (rxGain p)) (pathLoss r)) (Num 2) \<and>
    linkMargin r = sub (rxPower r) (to_number v) \<and>
    status r \<in> {''poor'', ''marginal'', ''good'', ''excellent''} \<and>
    status r =
      (if lt (linkMargin r) (fadeMargin_or_default p) then ''poor''
       else if lt (linkMargin r) (add (fadeMargin_or_default p) (Num 10)) then ''marginal''
       else if lt (linkMargin r) (add (fadeMargin_or_default p) (Num 20)) then ''good''
       else ''excellent'') \<and>
    (lt (linkMargin r) (fadeMargin_or_default p) \<longrightarrow> status r = ''poor'') \<and>
    (le (fadeMargin_or_default p) (linkMargin r) \<and>
       lt (linkMargin r) (add (fadeMargin_or_default p) (Num 10))
       \<longrightarrow> status r = ''marginal'') \<and>
    (le (add (fadeMargin_or_default p) (Num 10)) (linkMargin r) \<and>
       lt (linkMargin r) (add (fadeMargin_or_default p) (Num 20))
       \<longrightarrow> status r = ''good'') \<and>
    (ge (linkMargin r) (add (fadeMargin_or_default p) (Num 20)) \<longrightarrow> status r = ''excellent'') \<and>
    (sf p \<in> sf_keys \<and> txPower p = Num tp \<and> txGain p = Num tg \<and> rxGain p = Num rg \<and>
     distance p = Num d \<and> frequency p = Num f \<and> 0 < f \<and> fadeMargin_or_default p = Num F
     \<longrightarrow> (\<exists>s m. v = Number (Num s) \<and>
            m = tp + tg + rg
                 - (if d \<le> 0 then 0 else 20 * log 10 d + 20 * log 10 f + 32.45) - 2 - s \<and>
            linkMargin r = Num m \<and>
            status r = (if m < F then ''poor'' else if m < F + 10 then ''marginal''
                        else if m < F + 20 then ''good'' else ''excellent'')))"
proof -
  from getSensitivity_bw_key [OF assms]
  obtain v where v: "getSensitivity (sf p) (bw p) = Inr v" by blast
  define r where "r = projr (calculateLinkBudget p)"
  have r: "calculateLinkBudget p = Inr r"
    by (simp add: r_def calculateLinkBudget_def v Let_def)
  have pl: "pathLoss r = calculateFSPL (distance p) (frequency p)"
    and rx: "rxPower r = sub (sub (add (add (txPower p) (txGain p)) (rxGain p)) (pathLoss r)) (Num 2)"
    and lm: "linkMargin r = sub (rxPower r) (to_number v)"
    and st: "status r = link_status (linkMargin r) (fadeMargin_or_default p)"
    by (simp_all add: r_def calculateLinkBudget_def v Let_def)
  have fin: "\<exists>s m. v = Number (Num s) \<and>
            m = tp + tg + rg
                 - (if d \<le> 0 then 0 else 20 * log 10 d + 20 * log 10 f + 32.45) - 2 - s \<and>
            linkMargin r = Num m \<and>
            status r = (if m < F then ''poor'' else if m < F + 10 then ''marginal''
                        else if m < F + 20 then ''good'' else ''excellent'')"
    if h: "sf p \<in> sf_keys" "txPower p = Num tp" "txGain p = Num tg" "rxGain p = Num rg"
      "distance p = Num d" "frequency p = Num f" "0 < f" "fadeMargin_or_default p = Num F"
  proof -
    from getSensitivity_in_table [OF assms h(1)] v
    obtain s where s: "v = Number (Num s)" by auto
    have "linkMargin r = Num (tp + tg + rg
             - (if d \<le> 0 then 0 else 20 * log 10 d + 20 * log 10 f + 32.45) - 2 - s)"
      unfolding lm rx pl h(2-6) s calculateFSPL_finite [OF h(7)] by (simp add: sub_def)
    then show ?thesis using s st h(8) by (simp add: link_status_finite)
  qed
  have lbl: "status r \<in> {''poor'', ''marginal'', ''good'', ''excellent''}"
    unfolding st by (rule link_status_label)
  have chain: "status r =
      (if lt (linkMargin r) (fadeMargin_or_default p) then ''poor''
       else if lt (linkMargin r) (add (fadeMargin_or_default p) (Num 10)) then ''marginal''
       else if lt (linkMargin r) (add (fadeMargin_or_default p) (Num 20)) then ''good''
       else ''excellent'')"
    unfolding st by (simp add: link_status_def)
  have thr: "(lt (linkMargin r) (fadeMargin_or_default p) \<longrightarrow> status r = ''poor'') \<and>
    (le (fadeMargin_or_default p) (linkMargin r) \<and>
       lt (linkMargin r) (add (fadeMargin_or_default p) (Num 10))
       \<longrightarrow> status r = ''marginal'') \<and>
    (le (add (fadeMargin_or_default p) (Num 10)) (linkMargin r) \<and>
       lt (linkMargin r) (add (fadeMargin_or_default p) (Num 20))
       \<longrightarrow> status r = ''good'') \<and>
    (ge (linkMargin r) (add (fadeMargin_or_default p) (Num 20)) \<longrightarrow> status r = ''excellent'')"
    unfolding st by (rule link_status_thresholds)
  from r v pl rx lm lbl chain thr fin show ?thesis by blast
qed

theorem calculateLinkBudget_status_witness:
  "Num 125 \<in> bw_keys \<and>
   map_sum id status (calculateLinkBudget (app_params 14 1)) = Inr ''excellent'' \<and>
   map_sum id status (calculateLinkBudget (app_params 14 10)) = Inr ''good'' \<and>
   map_sum id status (calculateLinkBudget (app_params 14 32)) = Inr ''marginal'' \<and>
   map_sum id status (calculateLinkBudget (app_params 14 100)) = Inr ''poor''"
proof -
  have k: "bw (app_params 14 d) \<in> bw_keys" for d
    by (simp add: app_params_def bw_keys_def)
  have at: "\<exists>r m. calculateLinkBudget (app_params 14 d) = Inr r \<and>
              m = 14 + 2 + 2 - (20 * log 10 d + 20 * log 10 868 + 32.45) - 2 - (- 123) \<and>
              status r = (if m < 10 then ''poor'' else if m < 10 + 10 then ''marginal''
                          else if m < 10 + 20 then ''good'' else ''excellent'')"
    if d: "0 < d" for d :: real
  proof -
    from calculateLinkBudget_status [OF k, of d 14 2 2 d 868 10] obtain r v where
      r: "calculateLinkBudget (app_params 14 d) = Inr r"
      and v: "getSensitivity (sf (app_params 14 d)) (bw (app_params 14 d)) = Inr v"
      and fin: "sf (app_params 14 d) \<in> sf_keys \<and> txPower (app_params 14 d) = Num 14 \<and>
          txGain (app_params 14 d) = Num 2 \<and> rxGain (app_params 14 d) = Num 2 \<and>
          distance (app_params 14 d) = Num d \<and> frequency (app_params 14 d) = Num 868 \<and>
          (0::real) < 868 \<and> fadeMargin_or_default (app_params 14 d) = Num 10
          \<longrightarrow> (\<exists>s m. v = Number (Num s) \<and>
            m = 14 + 2 + 2
                 - (if d \<le> 0 then 0 else 20 * log 10 d + 20 * log 10 868 + 32.45) - 2 - s \<and>
            linkMargin r = Num m \<and>
            status r = (if m < 10 then ''poor'' else if m < 10 + 10 then ''marginal''
                        else if m < 10 + 20 then ''good'' else ''excellent''))"
      by blast
    have "sf (app_params 14 d) \<in> sf_keys \<and> txPower (app_params 14 d) = Num 14 \<and>
          txGain (app_params 14 d) = Num 2 \<and> rxGain (app_params 14 d) = Num 2 \<and>
          distance (app_params 14 d) = Num d \<and> frequency (app_params 14 d) = Num 868 \<and>
          (0::real) < 868 \<and> fadeMargin_or_default (app_params 14 d) = Num 10"
      by (simp add: app_params_def sf_keys_def fadeMargin_or_default_def)
    with fin obtain s m where s: "v = Number (Num s)"
      and m: "m = 14 + 2 + 2
                 - (if d \<le> 0 then 0 else 20 * log 10 d + 20 * log 10 868 + 32.45) - 2 - s"
      and st: "status r = (if m < 10 then ''poor'' else if m < 10 + 10 then ''marginal''
                        else if m < 10 + 20 then ''good'' else ''excellent'')"
      by blast
    have "s = - 123" using s v app_params_sensitivity [of 14 d] by simp
    then show ?thesis using r m st d by auto
  qed
  have L: "29 / 10 < log 10 868" "log 10 868 < 3" using log10_868 by simp_all
  have "map_sum id status (calculateLinkBudget (app_params 14 1)) = Inr ''excellent''"
  proof -
    from at [of 1] obtain r m where r: "calculateLinkBudget (app_params 14 1) = Inr r"
      and m: "m = 14 + 2 + 2 - (20 * log 10 1 + 20 * log 10 868 + 32.45) - 2 - (- 123)"
      and st: "status r = (if m < 10 then ''poor'' else if m < 10 + 10 then ''marginal''
                          else if m < 10 + 20 then ''good'' else ''excellent'')"
      by auto
    have "30 \<le> m" using m L by simp
    then show ?thesis using r st by simp
  qed
  moreover have "map_sum id status (calculateLinkBudget (app_params 14 10)) = Inr ''good''"
  proof -
    from at [of 10] obtain r m where r: "calculateLinkBudget (app_params 14 10) = Inr r"
      and m: "m = 14 + 2 + 2 - (20 * log 10 10 + 20 * log 10 868 + 32.45) - 2 - (- 123)"
      and st: "status r = (if m < 10 then ''poor'' else if m < 10 + 10 then ''marginal''
                          else if m < 10 + 20 then ''good'' else ''excellent'')"
      by auto
    have "20 \<le> m \<and> m < 30" using m L by simp
    then show ?thesis using r st by simp
  qed
  moreover have "map_sum id status (calculateLinkBudget (app_params 14 32)) = Inr ''marginal''"
  proof -
    from at [of 32] obtain r m where r: "calculateLinkBudget (app_params 14 32) = Inr r"
      and m: "m = 14 + 2 + 2 - (20 * log 10 32 + 20 * log 10 868 + 32.45) - 2 - (- 123)"
      and st: "status r = (if m < 10 then ''poor'' else if m < 10 + 10 then ''marginal''
                          else if m < 10 + 20 then ''good'' else ''excellent'')"
      by auto
    have "10 \<le> m \<and> m < 20" using m L log10_32 log10_32_upper by simp
    then show ?thesis using r st by simp
  qed
  moreover have "map_sum id status (calculateLinkBudget (app_params 14 100)) = Inr ''poor''"
  proof -
    from at [of 100] obtain r m where r: "calculateLinkBudget (app_params 14 100) = Inr r"
      and m: "m = 14 + 2 + 2 - (20 * log 10 100 + 20 * log 10 868 + 32.45) - 2 - (- 123)"
      and st: "status r = (if m < 10 then ''poor'' else if m < 10 + 10 then ''marginal''
                          else if m < 10 + 20 then ''good'' else ''excellent'')"
      by auto
    have "m < 10" using m L log10_100 by simp
    then show ?thesis using r st by simp
  qed
  ultimately show ?thesis by (simp add: bw_keys_def)
qed

section \<open>Maximum range\<close>










section \<open>Line of sight\<close>

lemma scan_loop_done:
  "length ps - 1 \<le> i \<Longrightarrow> scan_loop ps t s e f bs i st = st"
  by (subst scan_loop.simps) simp

lemma scan_loop_next:
  "i < length ps - 1 \<Longrightarrow>
     scan_loop ps t s e f bs i st
       = scan_loop ps t s e f bs (i + 1) (scan_step t s e f bs (ps ! i) st)"
  by (subst scan_loop.simps) simp

lemma remaining_samples:
  assumes "i < length ps - 1"
  shows "take (length ps - 1 - i) (drop i ps)
           = ps ! i # take (length ps - 1 - (i + 1)) (drop (i + 1) ps)"
proof -
  have "length ps - 1 - i = Suc (length ps - 1 - (i + 1))" using assms by simp
  moreover have "drop i ps = ps ! i # drop (i + 1) ps"
    using assms by (simp add: Cons_nth_drop_Suc)
  ultimately show ?thesis by simp
qed

text \<open>
  The loop from the index \<open>i\<close> appends one obstruction for each obstructed sample among
  those left, in path order, and folds \<open>Math.min\<close> over their clearance percentages.
\<close>

lemma scan_loop_obstructions:
  "fst (scan_loop ps t s e f bs i st) =
     fst st @ map (make_obstruction t s e f bs)
                (filter (obstructed t s e f bs) (take (length ps - 1 - i) (drop i ps)))"
proof (induction ps t s e f bs i st rule: scan_loop.induct)
  case (1 ps t s e f bs i st)
  show ?case
  proof (cases "i < length ps - 1")
    case True
    have "fst (scan_loop ps t s e f bs i st)
            = fst (scan_loop ps t s e f bs (i + 1) (scan_step t s e f bs (ps ! i) st))"
      using True by (simp add: scan_loop_next)
    also have "\<dots> = fst (scan_step t s e f bs (ps ! i) st) @
                 map (make_obstruction t s e f bs)
                   (filter (obstructed t s e f bs)
                      (take (length ps - 1 - (i + 1)) (drop (i + 1) ps)))"
      using "1.IH" [OF True] .
    finally show ?thesis
      unfolding remaining_samples [OF True] by (simp add: scan_step_def Let_def)
  next
    case False
    then show ?thesis by (simp add: scan_loop_done)
  qed
qed

lemma scan_loop_minClearance:
  "snd (scan_loop ps t s e f bs i st) =
     foldl Math_min (snd st)
       (map (fresnelClearancePercent t s e f bs) (take (length ps - 1 - i) (drop i ps)))"
proof (induction ps t s e f bs i st rule: scan_loop.induct)
  case (1 ps t s e f bs i st)
  show ?case
  proof (cases "i < length ps - 1")
    case True
    have "snd (scan_loop ps t s e f bs i st)
            = snd (scan_loop ps t s e f bs (i + 1) (scan_step t s e f bs (ps ! i) st))"
      using True by (simp add: scan_loop_next)
    also have "\<dots> = foldl Math_min (snd (scan_step t s e f bs (ps ! i) st))
                 (map (fresnelClearancePercent t s e f bs)
                    (take (length ps - 1 - (i + 1)) (drop (i + 1) ps)))"
      using "1.IH" [OF True] .
    finally show ?thesis
      unfolding remaining_samples [OF True] by (simp add: scan_step_def Let_def)
  next
    case False
    then show ?thesis by (simp add: scan_loop_done)
  qed
qed

lemma interior_from_1:
  "interior ps = take (length ps - 1 - 1) (drop 1 ps)"
  by (simp add: interior_def numeral_2_eq_2)

lemma set_interior:
  "set (interior ps) = {ps ! i | i. 1 \<le> i \<and> i < length ps - 1}"
proof -
  have l: "length (interior ps) = length ps - 2" by (auto simp: interior_def)
  have n: "interior ps ! k = ps ! (k + 1)" if "k < length ps - 2" for k
    using that by (simp add: interior_def)
  have "set (interior ps) = {interior ps ! k | k. k < length ps - 2}"
    by (simp add: set_conv_nth l)
  also have "\<dots> = {ps ! (k + 1) | k. k < length ps - 2}"
  proof -
    have "(\<exists>k. x = interior ps ! k \<and> k < length ps - 2)
            = (\<exists>k. x = ps ! (k + 1) \<and> k < length ps - 2)" for x
      using n by metis
    then show ?thesis by (intro Collect_cong)
  qed
  also have "\<dots> = {ps ! i | i. 1 \<le> i \<and> i < length ps - 1}"
  proof safe
    fix k assume "k < length ps - 2"
    then show "\<exists>i. ps ! (k + 1) = ps ! i \<and> 1 \<le> i \<and> i < length ps - 1"
      by (intro exI [of _ "k + 1"]) auto
  next
    fix i assume "1 \<le> i" "i < length ps - 1"
    then show "\<exists>k. ps ! i = ps ! (k + 1) \<and> k < length ps - 2"
      by (intro exI [of _ "i - 1"]) auto
  qed
  finally show ?thesis .
qed

lemma example_sample_obstructed:
  "obstructed (Num 2) (Num 10) (Num 10) (Num 868) []
     \<lparr>p_lat = Num 45, p_lon = Num 9.01, p_elevation = Num 500, p_distance = Num 1\<rparr>"
proof -
  have "sqrt (1 / 1736) \<le> 1" by (simp add: real_le_lsqrt)
  then have b: "10 - 1000 / 12742 + 17.3 * sqrt (1 / 1736) * 0.6 < (500::real)"
    by linarith
  have "requiredHeight (Num 2) (Num 10) (Num 10) (Num 868)
          \<lparr>p_lat = Num 45, p_lon = Num 9.01, p_elevation = Num 500, p_distance = Num 1\<rparr>
        = Num (10 - 1000 / 12742 + 17.3 * sqrt (1 / 1736) * 0.6)"
    unfolding requiredHeight_def adjustedLineHeight_def localFresnelRadius_def
      calculateEarthBulge_def calculateFresnelRadius_def earthRadius_def Let_def
    by (simp add: sub_def strict_eq_def del: real_sqrt_divide)
  then show ?thesis using b
    by (simp add: obstructed_def obstructionHeight_def gt_def)
qed

text \<open>
  Claim C6: for every elevation profile with fewer than 2 samples, \<open>analyzeLineOfSight\<close>
  returns, without throwing, the boundary result: no line of sight, an empty list of
  obstructions and a Fresnel clearance of zero (and neither a quality nor a distance).
\<close>

theorem analyzeLineOfSight_short_profile:
  assumes "length (profile ep) < 2"
  shows "analyzeLineOfSight ep h1 h2 fr f bs
           = \<lparr>hasLoS = False, obstructions = [], fresnelClearance = Num 0,
              quality = None, r_totalDistance = None\<rparr>"
  using assms by (simp add: analyzeLineOfSight_def Let_def)

theorem analyzeLineOfSight_short_profile_witness:
  "length (profile \<lparr>profile = [], totalDistance = Num 0\<rparr>) < 2 \<and>
   analyzeLineOfSight \<lparr>profile = [], totalDistance = Num 0\<rparr>
       (Num 10) (Num 10) (Num 0) (Num 868) []
     = \<lparr>hasLoS = False, obstructions = [], fresnelClearance = Num 0,
        quality = None, r_totalDistance = None\<rparr>"
  using analyzeLineOfSight_short_profile
    [of "\<lparr>profile = [], totalDistance = Num 0\<rparr>" "Num 10" "Num 10" "Num 0" "Num 868" "[]"]
  by simp

text \<open>
  Claim C9: for every elevation profile with exactly 2 samples, the loop over the interior
  samples does not run, and \<open>analyzeLineOfSight\<close> returns a line of sight with an empty
  list of obstructions, the Fresnel clearance \<open>+Infinity\<close> and the quality
  \<open>excellent\<close>, whatever the elevations, antenna heights, frequency and buildings.
\<close>

theorem analyzeLineOfSight_two_samples:
  assumes "length (profile ep) = 2"
  shows "analyzeLineOfSight ep h1 h2 fr f bs
           = \<lparr>hasLoS = True, obstructions = [], fresnelClearance = PInf,
              quality = Some ''excellent'', r_totalDistance = Some (totalDistance ep)\<rparr>"
  using assms by (simp add: analyzeLineOfSight_def Let_def scan_loop_done los_quality_def)

theorem analyzeLineOfSight_two_samples_witness:
  "length (profile
     \<lparr>profile =
        [\<lparr>p_lat = Num 45, p_lon = Num 9, p_elevation = Num 4000, p_distance = Num 0\<rparr>,
         \<lparr>p_lat = Num 46, p_lon = Num 9, p_elevation = Num 0, p_distance = Num 111\<rparr>],
      totalDistance = Num 111\<rparr>) = 2 \<and>
   analyzeLineOfSight
     \<lparr>profile =
        [\<lparr>p_lat = Num 45, p_lon = Num 9, p_elevation = Num 4000, p_distance = Num 0\<rparr>,
         \<lparr>p_lat = Num 46, p_lon = Num 9, p_elevation = Num 0, p_distance = Num 111\<rparr>],
      totalDistance = Num 111\<rparr>
     (Num 2) (Num 2) (Num 0) (Num 433)
     [\<lparr>b_lat = Num 45, b_lon = Num 9, b_height = Num 30\<rparr>]
   = \<lparr>hasLoS = True, obstructions = [], fresnelClearance = PInf,
      quality = Some ''excellent'', r_totalDistance = Some (Num 111)\<rparr>"
  using analyzeLineOfSight_two_samples
    [of "\<lparr>profile =
            [\<lparr>p_lat = Num 45, p_lon = Num 9, p_elevation = Num 4000, p_distance = Num 0\<rparr>,
             \<lparr>p_lat = Num 46, p_lon = Num 9, p_elevation = Num 0, p_distance = Num 111\<rparr>],
          totalDistance = Num 111\<rparr>"
        "Num 2" "Num 2" "Num 0" "Num 433"
        "[\<lparr>b_lat = Num 45, b_lon = Num 9, b_height = Num 30\<rparr>]"]
  by simp

text \<open>
  Claim C4, as stated: for every elevation profile, \<open>hasLineOfSight\<close> holds exactly when
  no obstruction was recorded, and the quality is \<open>blocked\<close> when there is no line of
  sight. It does not hold for a profile of fewer than 2 samples: the early return reports
  no line of sight with no obstruction recorded, and has no quality at all.
\<close>

theorem analyzeLineOfSight_one_sample_counterexample:
  "analyzeLineOfSight
     \<lparr>profile = [\<lparr>p_lat = Num 45, p_lon = Num 9, p_elevation = Num 100, p_distance = Num 0\<rparr>],
      totalDistance = Num 0\<rparr>
     (Num 10) (Num 10) (Num 0) (Num 868) []
   = \<lparr>hasLoS = False, obstructions = [], fresnelClearance = Num 0,
      quality = None, r_totalDistance = None\<rparr>"
  by (simp add: analyzeLineOfSight_def)

text \<open>
  Claim C4, amended: for every elevation profile of at least 2 samples, antenna heights,
  frequency and buildings, the result has a line of sight exactly when the list of
  obstructions is empty; the list holds, in path order, one obstruction for each interior
  sample whose obstruction height exceeds the required height, so there is a line of
  sight exactly when no interior sample is obstructed; the Fresnel clearance is the
  minimum (\<open>Math.min\<close>, from \<open>+Infinity\<close>) of the clearance percentages of the
  interior samples; and the quality is \<open>blocked\<close> without line of sight, else \<open>poor\<close>
  for a clearance below 20, \<open>marginal\<close> below 60, \<open>good\<close> below 100 and
  \<open>excellent\<close> otherwise.
\<close>

theorem analyzeLineOfSight_verdict:
  fixes ep :: elevation_profile and h1 h2 fr f :: number and bs :: "building list"
    and r :: los_result and s e :: number
  assumes "2 \<le> length (profile ep)"
    and r: "r = analyzeLineOfSight ep h1 h2 fr f bs"
    and s: "s = add (p_elevation (profile ep ! 0)) h1"
    and e: "e = add (p_elevation (profile ep ! (length (profile ep) - 1))) h2"
  shows "(hasLoS r \<longleftrightarrow> obstructions r = []) \<and>
         obstructions r = map (make_obstruction (totalDistance ep) s e f bs)
            (filter (obstructed (totalDistance ep) s e f bs) (interior (profile ep))) \<and>
         (hasLoS r \<longleftrightarrow>
            (\<forall>i. 1 \<le> i \<and> i < length (profile ep) - 1
                 \<longrightarrow> \<not> obstructed (totalDistance ep) s e f bs (profile ep ! i))) \<and>
         fresnelClearance r = foldl Math_min PInf
            (map (fresnelClearancePercent (totalDistance ep) s e f bs) (interior (profile ep))) \<and>
         quality r = Some (if \<not> hasLoS r then ''blocked''
                           else if lt (fresnelClearance r) (Num 20) then ''poor''
                           else if lt (fresnelClearance r) (Num 60) then ''marginal''
                           else if lt (fresnelClearance r) (Num 100) then ''good''
                           else ''excellent'')"
proof -
  have los: "hasLoS r \<longleftrightarrow> obstructions r = []"
    using assms(1) unfolding r by (simp add: analyzeLineOfSight_def Let_def)
  have obs: "obstructions r = map (make_obstruction (totalDistance ep) s e f bs)
            (filter (obstructed (totalDistance ep) s e f bs) (interior (profile ep)))"
    using assms(1) unfolding r s e interior_from_1
    by (simp add: analyzeLineOfSight_def Let_def scan_loop_obstructions)
  have "obstructions r = [] \<longleftrightarrow>
          (\<forall>x \<in> set (interior (profile ep)). \<not> obstructed (totalDistance ep) s e f bs x)"
    unfolding obs by (simp add: filter_empty_conv)
  also have "\<dots> \<longleftrightarrow> (\<forall>i. 1 \<le> i \<and> i < length (profile ep) - 1
                 \<longrightarrow> \<not> obstructed (totalDistance ep) s e f bs (profile ep ! i))"
    unfolding set_interior by blast
  finally have all: "hasLoS r \<longleftrightarrow> (\<forall>i. 1 \<le> i \<and> i < length (profile ep) - 1
                 \<longrightarrow> \<not> obstructed (totalDistance ep) s e f bs (profile ep ! i))"
    using los by simp
  have clr: "fresnelClearance r = foldl Math_min PInf
            (map (fresnelClearancePercent (totalDistance ep) s e f bs) (interior (profile ep)))"
    using assms(1) unfolding r s e interior_from_1
    by (simp add: analyzeLineOfSight_def Let_def scan_loop_minClearance)
  have q: "quality r = Some (if \<not> hasLoS r then ''blocked''
                           else if lt (fresnelClearance r) (Num 20) then ''poor''
                           else if lt (fresnelClearance r) (Num 60) then ''marginal''
                           else if lt (fresnelClearance r) (Num 100) then ''good''
                           else ''excellent'')"
    using assms(1) unfolding r by (simp add: analyzeLineOfSight_def Let_def los_quality_def)
  from los obs all clr q show ?thesis by blast
qed

theorem analyzeLineOfSight_verdict_witness:
  "2 \<le> length (profile example_profile) \<and>
   \<not> hasLoS (analyzeLineOfSight example_profile (Num 10) (Num 10) (Num 0) (Num 868) []) \<and>
   obstructions (analyzeLineOfSight example_profile (Num 10) (Num 10) (Num 0) (Num 868) [])
     \<noteq> [] \<and>
   quality (analyzeLineOfSight example_profile (Num 10) (Num 10) (Num 0) (Num 868) [])
     = Some ''blocked''"
proof -
  let ?r = "analyzeLineOfSight example_profile (Num 10) (Num 10) (Num 0) (Num 868) []"
  have len: "2 \<le> length (profile example_profile)"
    by (simp add: example_profile_def)
  have s: "Num 10 = add (p_elevation (profile example_profile ! 0)) (Num 10)"
    by (simp add: example_profile_def)
  have e: "Num 10 = add (p_elevation (profile example_profile
                          ! (length (profile example_profile) - 1))) (Num 10)"
    by (simp add: example_profile_def)
  note v = analyzeLineOfSight_verdict [OF len refl s e, of "Num 0" "Num 868" "[]"]
  have "obstructed (totalDistance example_profile) (Num 10) (Num 10) (Num 868) []
          (profile example_profile ! 1)"
    using example_sample_obstructed by (simp add: example_profile_def)
  moreover have "(1::nat) \<le> 1 \<and> 1 < length (profile example_profile) - 1"
    by (simp add: example_profile_def)
  ultimately have "\<not> hasLoS ?r" using v by blast
  then show ?thesis using v len by auto
qed

end
